theory Spec2Isabelle
  imports Complex_Main
begin

section \<open>Tables, configuration and errors\<close>

text \<open>
  The two decision-support functions of the package, \<^verbatim>\<open>simulate_incentives\<close>
  (simulation/incentives.py) and \<^verbatim>\<open>optimize_demand\<close> (optimization/optimizer.py),
  work on pandas tables. A table is modelled by the list of its rows, in row order; the
  rows are labelled by their position, as with the default index, so that an assignment
  through a mask writes row by row.
  A timestamp is the number of seconds since the epoch, a number of the table is a real
  (the model computes with exact reals where the program computes with binary floating
  point), and a route or stop identifier is a string.
\<close>

record demand_row =
  route_id :: string
  stop_id :: string
  timestamp :: int
  validations :: real

text \<open>
  The demand table handed to the simulator: the names of the columns it has, and its rows.
  Reading a column that the table lacks raises \<^verbatim>\<open>KeyError\<close>; the fields of a row
  that belong to a missing column are never read.
\<close>

record demand_frame =
  columns :: "string list"
  rows :: "demand_row list"

datatype error = KeyError string | ImportError string

text \<open>
  A numpy scalar division does not raise on a zero divisor: it yields \<^verbatim>\<open>nan\<close> for
  \<^verbatim>\<open>0/0\<close> and a signed infinity otherwise. Only the results of such a division
  (and of the two operations applied to it afterwards) can be non-finite in the simulator.
\<close>

datatype npfloat = Fin real | NaN | PInf | NInf

definition np_div :: "real \<Rightarrow> real \<Rightarrow> npfloat" where
  "np_div a b =
     (if b \<noteq> 0 then Fin (a / b)
      else if a = 0 then NaN
      else if 0 < a then PInf else NInf)"

fun np_rsub :: "real \<Rightarrow> npfloat \<Rightarrow> npfloat" where
  "np_rsub c (Fin q) = Fin (c - q)"
| "np_rsub c NaN = NaN"
| "np_rsub c PInf = NInf"
| "np_rsub c NInf = PInf"

fun np_times100 :: "npfloat \<Rightarrow> npfloat" where
  "np_times100 (Fin q) = Fin (q * 100)"
| "np_times100 NaN = NaN"
| "np_times100 PInf = PInf"
| "np_times100 NInf = NInf"

section \<open>The elasticity simulator (simulation/incentives.py)\<close>

record ElasticityConfig =
  price_elasticity :: real
  time_elasticity :: real
  peak_hours :: "int \<times> int"
  shoulder_hours :: "int \<times> int"

text \<open>The rows of \<^verbatim>\<open>baseline\<close> and \<^verbatim>\<open>simulated\<close> carry the added column \<^verbatim>\<open>hour\<close>.\<close>

record hour_row = demand_row +
  hour :: int

record SimulationResult =
  baseline :: "hour_row list"
  simulated :: "hour_row list"
  peak_reduction_pct :: npfloat
  revenue_delta_pct :: real

text \<open>\<^verbatim>\<open>Series.dt.hour\<close>: the hour of the day, 0 to 23.\<close>

definition hour_of :: "int \<Rightarrow> int" where
  "hour_of t = (t div 3600) mod 24"

definition with_hour :: "demand_row \<Rightarrow> hour_row" where
  "with_hour r =
     \<lparr>route_id = route_id r, stop_id = stop_id r, timestamp = timestamp r,
      validations = validations r, hour = hour_of (timestamp r)\<rparr>"

text \<open>\<^verbatim>\<open>Series.between(left, right)\<close>, inclusive on both sides.\<close>

definition between :: "int \<Rightarrow> int \<times> int \<Rightarrow> bool" where
  "between h r = (fst r \<le> h \<and> h \<le> snd r)"

definition peak_mask :: "ElasticityConfig \<Rightarrow> hour_row \<Rightarrow> bool" where
  "peak_mask elasticity r = between (hour r) (peak_hours elasticity)"

definition shoulder_mask :: "ElasticityConfig \<Rightarrow> hour_row \<Rightarrow> bool" where
  "shoulder_mask elasticity r = between (hour r) (shoulder_hours elasticity)"

definition total_elasticity :: "ElasticityConfig \<Rightarrow> real" where
  "total_elasticity elasticity = price_elasticity elasticity + time_elasticity elasticity"

text \<open>\<^verbatim>\<open>shifted = peak_demand * (-total_elasticity)\<close>, one entry per peak row.\<close>

definition shifted :: "ElasticityConfig \<Rightarrow> hour_row list \<Rightarrow> real list" where
  "shifted elasticity base =
     map (\<lambda>r. validations r * (- total_elasticity elasticity)) (filter (peak_mask elasticity) base)"

definition shoulder_count :: "ElasticityConfig \<Rightarrow> hour_row list \<Rightarrow> nat" where
  "shoulder_count elasticity base = max (length (filter (shoulder_mask elasticity) base)) 1"

text \<open>
  The three assignments to \<^verbatim>\<open>simulated["validations"]\<close>, in the order of the source.
  The second one writes \<^verbatim>\<open>shoulder_demand - shifted.sum() / shoulder_count\<close>, where
  \<^verbatim>\<open>shoulder_demand\<close> was read from the table before the first assignment: on a row
  that is under both masks it replaces what the first assignment wrote.
\<close>

definition assign_peak :: "ElasticityConfig \<Rightarrow> hour_row list \<Rightarrow> hour_row list" where
  "assign_peak elasticity base =
     map (\<lambda>r. if peak_mask elasticity r
               then r\<lparr>validations := validations r + validations r * (- total_elasticity elasticity)\<rparr>
               else r) base"

definition assign_shoulder :: "ElasticityConfig \<Rightarrow> hour_row list \<Rightarrow> hour_row list \<Rightarrow> hour_row list" where
  "assign_shoulder elasticity base sim =
     map2 (\<lambda>b s. if shoulder_mask elasticity b
                  then s\<lparr>validations := validations b
                          - sum_list (shifted elasticity base) / real (shoulder_count elasticity base)\<rparr>
                  else s) base sim"

definition clip_lower :: "hour_row list \<Rightarrow> hour_row list" where
  "clip_lower sim = map (\<lambda>s. s\<lparr>validations := max (validations s) 0\<rparr>) sim"

definition simulate_incentives ::
  "demand_frame \<Rightarrow> ElasticityConfig \<Rightarrow> real \<Rightarrow> error + SimulationResult" where
  "simulate_incentives demand elasticity fare =
     (if ''timestamp'' \<notin> set (columns demand) then Inl (KeyError ''timestamp'')
      else if ''validations'' \<notin> set (columns demand) then Inl (KeyError ''validations'')
      else
        let base = map with_hour (rows demand);
            baseline_revenue = sum_list (map validations base) * fare;
            peak_demand = map validations (filter (peak_mask elasticity) base);
            sim = clip_lower (assign_shoulder elasticity base (assign_peak elasticity base));
            simulated_revenue = sum_list (map validations sim) * fare;
            peak_reduction =
              np_rsub 1 (np_div (sum_list (map validations (filter (peak_mask elasticity) sim)))
                                (sum_list peak_demand));
            revenue_delta =
              (if baseline_revenue \<noteq> 0
               then (simulated_revenue - baseline_revenue) / baseline_revenue else 0)
        in Inr \<lparr>baseline = base, simulated = sim,
                peak_reduction_pct = np_times100 peak_reduction,
                revenue_delta_pct = revenue_delta * 100\<rparr>)"


section \<open>The allocation optimizer (optimization/optimizer.py)\<close>

record capacity_row =
  cap_route_id :: string
  cap_timestamp :: int
  cap_capacity :: real

record OptimizationConfig =
  revenue_tolerance :: real
  min_service_factor :: real

subsection \<open>The linear program handed to PuLP\<close>

text \<open>
  The variables are the entries of the dictionary \<^verbatim>\<open>decision\<close>, keyed by route and
  timestamp, and \<^verbatim>\<open>peak_var\<close>; each has \<^verbatim>\<open>lowBound=0\<close>. A constraint is an affine
  expression, kept as its list of terms, compared with a constant.
\<close>

datatype lp_var = Decision string int | PeakVar

datatype lp_sense = LE | GE

record lp_constraint =
  lhs :: "(lp_var \<times> real) list"
  sense :: lp_sense
  rhs :: real

record lp_problem =
  lp_variables :: "lp_var list"
  objective :: "(lp_var \<times> real) list"
  constraints :: "lp_constraint list"

text \<open>
  The solver is external to the package (\<^verbatim>\<open>model.solve(pulp.PULP_CBC_CMD(msg=False))\<close>).
  It is a parameter of the model: a function from the problem to a status and a value for
  every variable, the values PuLP leaves on the variables after the call whatever the status.
  The module-level name \<^verbatim>\<open>pulp\<close> is \<^verbatim>\<open>None\<close> when the import failed.
\<close>

datatype lp_status = Optimal | NotSolved | Infeasible | Unbounded | Undefined

record lp_solution =
  status :: lp_status
  var_value :: "lp_var \<Rightarrow> real"

type_synonym solver = "lp_problem \<Rightarrow> lp_solution"

text \<open>\<^verbatim>\<open>Series.unique()\<close>: the distinct values in order of first appearance.\<close>

definition unique :: "'a list \<Rightarrow> 'a list" where
  "unique xs = rev (remdups (rev xs))"

definition routes_of :: "demand_row list \<Rightarrow> string list" where
  "routes_of demand = unique (map route_id demand)"

definition timestamps_of :: "demand_row list \<Rightarrow> int list" where
  "timestamps_of demand = sort (unique (map timestamp demand))"

text \<open>
  \<^verbatim>\<open>fares = {route: fares.get(route, 0.0) for route in routes}\<close>: the rebuilt dictionary
  has every route of the demand table as a key, and it is only ever read at such routes.
\<close>

definition fare_of :: "(string \<rightharpoonup> real) \<Rightarrow> string \<Rightarrow> real" where
  "fare_of fares route = (case fares route of Some f \<Rightarrow> f | None \<Rightarrow> 0)"

text \<open>The capacity of the first matching row of the capacity table, or the sentinel \<^verbatim>\<open>1e6\<close>.\<close>

definition cap_value :: "capacity_row list \<Rightarrow> string \<Rightarrow> int \<Rightarrow> real" where
  "cap_value capacity route ts =
     (case filter (\<lambda>c. cap_route_id c = route \<and> cap_timestamp c = ts) capacity of
        [] \<Rightarrow> 1000000
      | c # _ \<Rightarrow> cap_capacity c)"

definition baseline_revenue :: "demand_row list \<Rightarrow> (string \<rightharpoonup> real) \<Rightarrow> real" where
  "baseline_revenue demand fares =
     sum_list (map (\<lambda>row. validations row * fare_of fares (route_id row)) demand)"

definition decision_vars :: "string list \<Rightarrow> int list \<Rightarrow> lp_var list" where
  "decision_vars routes timestamps =
     concat (map (\<lambda>ts. map (\<lambda>route. Decision route ts) routes) timestamps)"

definition capacity_constraints :: "capacity_row list \<Rightarrow> string list \<Rightarrow> int list \<Rightarrow> lp_constraint list" where
  "capacity_constraints capacity routes timestamps =
     concat (map (\<lambda>route. map (\<lambda>ts.
       \<lparr>lhs = [(Decision route ts, 1)], sense = LE, rhs = cap_value capacity route ts\<rparr>) timestamps) routes)"

text \<open>\<^verbatim>\<open>lpSum(...) <= peak_var\<close> is the constraint \<^verbatim>\<open>lpSum(...) - peak_var <= 0\<close>.\<close>

definition peak_constraints :: "string list \<Rightarrow> int list \<Rightarrow> lp_constraint list" where
  "peak_constraints routes timestamps =
     map (\<lambda>ts. \<lparr>lhs = map (\<lambda>route. (Decision route ts, 1)) routes @ [(PeakVar, - 1)],
                 sense = LE, rhs = 0\<rparr>) timestamps"

definition revenue_constraint ::
  "demand_row list \<Rightarrow> (string \<rightharpoonup> real) \<Rightarrow> OptimizationConfig \<Rightarrow> string list \<Rightarrow> int list \<Rightarrow> lp_constraint" where
  "revenue_constraint demand fares config routes timestamps =
     \<lparr>lhs = concat (map (\<lambda>route. map (\<lambda>ts. (Decision route ts, fare_of fares route)) timestamps) routes),
      sense = GE,
      rhs = baseline_revenue demand fares * (1 - revenue_tolerance config)\<rparr>"

definition service_constraints :: "demand_row list \<Rightarrow> OptimizationConfig \<Rightarrow> lp_constraint list" where
  "service_constraints demand config =
     map (\<lambda>row. \<lparr>lhs = [(Decision (route_id row) (timestamp row), 1)], sense = GE,
                  rhs = validations row * min_service_factor config\<rparr>) demand"

definition lp_model ::
  "demand_row list \<Rightarrow> capacity_row list \<Rightarrow> (string \<rightharpoonup> real) \<Rightarrow> OptimizationConfig \<Rightarrow> lp_problem" where
  "lp_model demand capacity fares config =
     (let routes = routes_of demand; timestamps = timestamps_of demand
      in \<lparr>lp_variables = decision_vars routes timestamps @ [PeakVar],
          objective = [(PeakVar, 1)],
          constraints = capacity_constraints capacity routes timestamps
                        @ peak_constraints routes timestamps
                        @ [revenue_constraint demand fares config routes timestamps]
                        @ service_constraints demand config\<rparr>)"

subsection \<open>\<^verbatim>\<open>optimize_demand\<close>\<close>

record optimized_row = demand_row +
  optimized_validations :: real
  out_capacity :: real
  peak_load :: real
  opt_revenue_delta_pct :: real

text \<open>
  The tables handed to the optimizer have all their columns. The output column
  \<^verbatim>\<open>capacity\<close> is the field \<open>out_capacity\<close>, and \<^verbatim>\<open>revenue_delta_pct\<close> is
  \<open>opt_revenue_delta_pct\<close>. The status of the solve is
  not read: the values of the variables are copied into the output table as they are.
\<close>

definition optimize_demand ::
  "solver option \<Rightarrow> demand_row list \<Rightarrow> capacity_row list \<Rightarrow> (string \<rightharpoonup> real)
     \<Rightarrow> OptimizationConfig \<Rightarrow> error + optimized_row list" where
  "optimize_demand pulp demand capacity fares config =
     (case pulp of
        None \<Rightarrow> Inl (ImportError ''PuLP must be installed to run optimization'')
      | Some solve \<Rightarrow>
          let sol = solve (lp_model demand capacity fares config);
              base_revenue = baseline_revenue demand fares;
              revenue = sum_list (map (\<lambda>row. var_value sol (Decision (route_id row) (timestamp row))
                                             * fare_of fares (route_id row)) demand);
              delta = (if base_revenue \<noteq> 0
                       then (revenue - base_revenue) / base_revenue * 100 else 0)
          in Inr (map (\<lambda>row.
                \<lparr>route_id = route_id row, stop_id = stop_id row, timestamp = timestamp row,
                 validations = validations row,
                 optimized_validations = var_value sol (Decision (route_id row) (timestamp row)),
                 out_capacity = cap_value capacity (route_id row) (timestamp row),
                 peak_load = var_value sol PeakVar,
                 opt_revenue_delta_pct = delta\<rparr>) demand))"

subsection \<open>What a solution of the linear program is\<close>

definition eval_expr :: "(lp_var \<Rightarrow> real) \<Rightarrow> (lp_var \<times> real) list \<Rightarrow> real" where
  "eval_expr values terms = sum_list (map (\<lambda>(v, c). c * values v) terms)"

text \<open>A constraint holds within the tolerance \<open>eps\<close> of the solver.\<close>

definition satisfied :: "real \<Rightarrow> (lp_var \<Rightarrow> real) \<Rightarrow> lp_constraint \<Rightarrow> bool" where
  "satisfied eps values c =
     (case sense c of
        LE \<Rightarrow> eval_expr values (lhs c) \<le> rhs c + eps
      | GE \<Rightarrow> rhs c - eps \<le> eval_expr values (lhs c))"

definition lp_feasible :: "real \<Rightarrow> lp_problem \<Rightarrow> (lp_var \<Rightarrow> real) \<Rightarrow> bool" where
  "lp_feasible eps p values =
     (list_all (satisfied eps values) (constraints p)
      \<and> list_all (\<lambda>v. - eps \<le> values v) (lp_variables p))"

text \<open>
  The solve succeeded: the solver reports \<^verbatim>\<open>Optimal\<close> and its values meet every
  constraint and bound of the problem within the tolerance.
\<close>

definition lp_solved :: "real \<Rightarrow> lp_problem \<Rightarrow> lp_solution \<Rightarrow> bool" where
  "lp_solved eps p sol = (status sol = Optimal \<and> lp_feasible eps p (var_value sol))"

definition lp_optimal :: "lp_problem \<Rightarrow> (lp_var \<Rightarrow> real) \<Rightarrow> bool" where
  "lp_optimal p values =
     (lp_feasible 0 p values
      \<and> (\<forall>w. lp_feasible 0 p w \<longrightarrow> eval_expr values (objective p) \<le> eval_expr w (objective p)))"


text \<open>The sum of \<^verbatim>\<open>optimized_validations\<close> over the output rows that carry a timestamp.\<close>

definition timestamp_load :: "optimized_row list \<Rightarrow> int \<Rightarrow> real" where
  "timestamp_load out t = sum_list (map optimized_validations (filter (\<lambda>r. timestamp r = t) out))"

section \<open>Derived notions and the scenarios of the specification\<close>

text \<open>
  The value the three assignments leave in \<^verbatim>\<open>simulated["validations"]\<close> for a row of
  the baseline table; \<open>simulated_rows\<close> below proves that this is what they compute.
\<close>

definition sim_value :: "ElasticityConfig \<Rightarrow> hour_row list \<Rightarrow> hour_row \<Rightarrow> real" where
  "sim_value elasticity base r =
     max (if shoulder_mask elasticity r
          then validations r - sum_list (shifted elasticity base) / real (shoulder_count elasticity base)
          else if peak_mask elasticity r
          then validations r + validations r * (- total_elasticity elasticity)
          else validations r) 0"


definition all_columns :: "string list" where
  "all_columns = [''route_id'', ''stop_id'', ''timestamp'', ''validations'']"

text \<open>A row of route R1 at stop S1, at the given hour of 2 January 2023.\<close>

definition at_hour :: "int \<Rightarrow> real \<Rightarrow> demand_row" where
  "at_hour h v =
     \<lparr>route_id = ''R1'', stop_id = ''S1'', timestamp = 1672617600 + h * 3600, validations = v\<rparr>"

text \<open>Scenario A: three peak records of 100 validations, six shoulder records of 50.\<close>

definition scenario_A_demand :: demand_frame where
  "scenario_A_demand =
     \<lparr>columns = all_columns,
      rows = [at_hour 7 100, at_hour 8 100, at_hour 9 100,
              at_hour 10 50, at_hour 11 50, at_hour 12 50,
              at_hour 13 50, at_hour 14 50, at_hour 15 50]\<rparr>"

definition scenario_A_elasticity :: ElasticityConfig where
  "scenario_A_elasticity =
     \<lparr>price_elasticity = 0.05, time_elasticity = 0.05,
      peak_hours = (7, 9), shoulder_hours = (10, 15)\<rparr>"

text \<open>A configuration whose two hour ranges share the hour 9.\<close>

definition overlapping_elasticity :: ElasticityConfig where
  "overlapping_elasticity =
     \<lparr>price_elasticity = 0.05, time_elasticity = 0.05,
      peak_hours = (7, 9), shoulder_hours = (9, 15)\<rparr>"



text \<open>A demand row of the given route and stop, at the given hour of 2 January 2023.\<close>

definition row_at :: "string \<Rightarrow> string \<Rightarrow> int \<Rightarrow> real \<Rightarrow> demand_row" where
  "row_at r s h v =
     \<lparr>route_id = r, stop_id = s, timestamp = 1672617600 + h * 3600, validations = v\<rparr>"

definition cap_at :: "string \<Rightarrow> int \<Rightarrow> real \<Rightarrow> capacity_row" where
  "cap_at r h c = \<lparr>cap_route_id = r, cap_timestamp = 1672617600 + h * 3600, cap_capacity = c\<rparr>"

text \<open>
  Scenario C: one route, validations 10, 50, 10 at three timestamps, capacity 100 at each,
  fare 2, \<^verbatim>\<open>min_service_factor=0.8\<close>, \<^verbatim>\<open>revenue_tolerance=0\<close>.
\<close>

definition scenario_C_demand :: "demand_row list" where
  "scenario_C_demand = [row_at ''R1'' ''S1'' 7 10, row_at ''R1'' ''S1'' 8 50, row_at ''R1'' ''S1'' 9 10]"

definition scenario_C_capacity :: "capacity_row list" where
  "scenario_C_capacity = [cap_at ''R1'' 7 100, cap_at ''R1'' 8 100, cap_at ''R1'' 9 100]"

definition scenario_C_fares :: "string \<rightharpoonup> real" where
  "scenario_C_fares = [''R1'' \<mapsto> 2]"

definition scenario_C_config :: OptimizationConfig where
  "scenario_C_config = \<lparr>revenue_tolerance = 0, min_service_factor = 0.8\<rparr>"

text \<open>A solver that answers 15, 40, 15 for the three decision variables and 40 for the peak.\<close>

definition scenario_C_values :: "lp_var \<Rightarrow> real" where
  "scenario_C_values v =
     (case v of Decision r t \<Rightarrow> (if t = 1672646400 then 40 else 15) | PeakVar \<Rightarrow> 40)"

definition scenario_C_solver :: solver where
  "scenario_C_solver p = \<lparr>status = Optimal, var_value = scenario_C_values\<rparr>"

text \<open>
  Two rows of one route at one timestamp, at two stops, as the ridership table of the
  package has them; no capacity row, no fare, the default configuration.
\<close>

definition shared_key_demand :: "demand_row list" where
  "shared_key_demand = [row_at ''R1'' ''S1'' 8 10, row_at ''R1'' ''S2'' 8 10]"

definition default_config :: OptimizationConfig where
  "default_config = \<lparr>revenue_tolerance = 0, min_service_factor = 0.8\<rparr>"

definition shared_key_solver :: solver where
  "shared_key_solver p = \<lparr>status = Optimal, var_value = (\<lambda>v. 8)\<rparr>"





section \<open>The simulator: what the assignments compute\<close>

lemmas sim_defs = simulate_incentives_def all_columns_def at_hour_def with_hour_def hour_of_def
  Let_def clip_lower_def assign_shoulder_def assign_peak_def shifted_def shoulder_count_def
  peak_mask_def shoulder_mask_def between_def total_elasticity_def np_div_def

lemma simulated_rows:
  "clip_lower (assign_shoulder el base (assign_peak el base))
     = map (\<lambda>r. r\<lparr>validations := sim_value el base r\<rparr>) base"
  by (simp add: clip_lower_def assign_shoulder_def assign_peak_def sim_value_def zip_map2
      zip_same_conv_map o_def)

lemma simulate_Inr:
  assumes "simulate_incentives demand el fare = Inr res"
  shows "baseline res = map with_hour (rows demand)"
    and "simulated res = map (\<lambda>r. r\<lparr>validations := sim_value el (baseline res) r\<rparr>) (baseline res)"
    and "revenue_delta_pct res =
           (if sum_list (map validations (baseline res)) * fare \<noteq> 0
            then (sum_list (map validations (simulated res)) * fare
                    - sum_list (map validations (baseline res)) * fare)
                 / (sum_list (map validations (baseline res)) * fare)
            else 0) * 100"
    and "peak_reduction_pct res =
           np_times100 (np_rsub 1 (np_div
             (sum_list (map validations (filter (peak_mask el) (simulated res))))
             (sum_list (map validations (filter (peak_mask el) (baseline res))))))"
  using assms
  by (auto simp: simulate_incentives_def Let_def simulated_rows split: if_splits)

lemma validations_with_hour: "validations \<circ> with_hour = validations"
  by (simp add: fun_eq_iff with_hour_def)

lemma nth_simulated:
  assumes "simulate_incentives demand el fare = Inr res" and "i < length (rows demand)"
  shows "validations (simulated res ! i) = sim_value el (baseline res) (with_hour (rows demand ! i))"
  using assms by (simp add: simulate_Inr(1,2)[OF assms(1)])


lemma sum_list_nonneg_real:
  fixes f :: "'a \<Rightarrow> real"
  shows "\<forall>x\<in>set xs. 0 \<le> f x \<Longrightarrow> 0 \<le> sum_list (map f xs)"
  by (induction xs) auto





lemma clipped_sum_nonneg:
  "0 \<le> sum_list (map validations
          (filter p (map (\<lambda>r. r\<lparr>validations := sim_value el base r\<rparr>) base)))"
  by (intro sum_list_nonneg_real) (auto simp: sim_value_def)

text \<open>
  Whenever the baseline validations of the peak rows sum to 0, the division of line 50 of
  incentives.py has a zero divisor, and \<^verbatim>\<open>peak_reduction_pct\<close> is not a number or is
  minus infinity: it is never 0.
\<close>

lemma peak_reduction_not_finite:
  assumes res: "simulate_incentives demand el fare = Inr res"
    and zero: "sum_list (map validations
                 (filter (\<lambda>r. between (hour_of (timestamp r)) (peak_hours el)) (rows demand))) = 0"
  shows "peak_reduction_pct res = NaN \<or> peak_reduction_pct res = NInf"
proof -
  have "filter (peak_mask el) (baseline res)
          = map with_hour (filter (\<lambda>r. between (hour_of (timestamp r)) (peak_hours el)) (rows demand))"
    by (simp add: simulate_Inr(1)[OF res] filter_map o_def peak_mask_def with_hour_def)
  then have z: "sum_list (map validations (filter (peak_mask el) (baseline res))) = 0"
    using zero by (simp add: validations_with_hour)
  have "0 \<le> sum_list (map validations (filter (peak_mask el) (simulated res)))"
    unfolding simulate_Inr(2)[OF res] by (rule clipped_sum_nonneg)
  then show ?thesis
    unfolding simulate_Inr(4)[OF res] z by (auto simp: np_div_def)
qed

section \<open>The simulator: the claims\<close>


text \<open>
  C7, as stated, fails where the two hour ranges overlap: with peak hours 7 to 9 and
  shoulder hours 9 to 15, a record at 9 o'clock with 100 validations is a peak record, the
  claim gives it \<open>100 * (1 - 0.1) = 90\<close>, and the simulator gives it 110, because the
  assignment to the shoulder rows is made after the assignment to the peak rows and starts
  from the baseline value.
\<close>

theorem overlapping_ranges_peak_row_not_scaled:
  "peak_mask overlapping_elasticity (with_hour (at_hour 9 100))
   \<and> validations (at_hour 9 100) * (1 - total_elasticity overlapping_elasticity) = 90
   \<and> simulate_incentives \<lparr>columns = all_columns, rows = [at_hour 9 100]\<rparr> overlapping_elasticity 2
      = Inr \<lparr>baseline = [with_hour (at_hour 9 100)],
             simulated = [(with_hour (at_hour 9 100))\<lparr>validations := 110\<rparr>],
             peak_reduction_pct = Fin (- 10), revenue_delta_pct = 10\<rparr>"
  by (simp add: sim_defs overlapping_elasticity_def)

text \<open>
  C7, amended. For every demand table and every elasticity configuration, a record whose
  hour of the day lies within the peak hours and not within the shoulder hours has
  simulated validations equal to its baseline validations times \<open>1 - total_elasticity\<close>,
  clamped at 0.
\<close>

theorem peak_only_rows_scaled:
  assumes "simulate_incentives demand el fare = Inr res"
    and "i < length (rows demand)"
    and "between (hour_of (timestamp (rows demand ! i))) (peak_hours el)"
    and "\<not> between (hour_of (timestamp (rows demand ! i))) (shoulder_hours el)"
  shows "validations (simulated res ! i)
           = max (validations (rows demand ! i) * (1 - total_elasticity el)) 0"
proof -
  let ?r = "with_hour (rows demand ! i)"
  have "peak_mask el ?r" "\<not> shoulder_mask el ?r"
    using assms(3,4) by (simp_all add: peak_mask_def shoulder_mask_def with_hour_def)
  then have "sim_value el (baseline res) ?r
               = max (validations ?r + validations ?r * (- total_elasticity el)) 0"
    by (simp add: sim_value_def)
  also have "\<dots> = max (validations (rows demand ! i) * (1 - total_elasticity el)) 0"
    by (simp add: with_hour_def algebra_simps)
  finally show ?thesis
    using nth_simulated[OF assms(1,2)] by simp
qed

theorem peak_only_rows_scaled_witness:
  "1 < length (rows scenario_A_demand)
   \<and> between (hour_of (timestamp (rows scenario_A_demand ! 1))) (peak_hours scenario_A_elasticity)
   \<and> \<not> between (hour_of (timestamp (rows scenario_A_demand ! 1))) (shoulder_hours scenario_A_elasticity)
   \<and> (case simulate_incentives scenario_A_demand scenario_A_elasticity 2 of
         Inr res \<Rightarrow> validations (simulated res ! 1) = 90
       | Inl e \<Rightarrow> False)"
proof -
  obtain res where r: "simulate_incentives scenario_A_demand scenario_A_elasticity 2 = Inr res"
    by (simp add: simulate_incentives_def scenario_A_demand_def all_columns_def Let_def)
  have h1: "1 < length (rows scenario_A_demand)"
    by (simp add: scenario_A_demand_def)
  have h2: "between (hour_of (timestamp (rows scenario_A_demand ! 1))) (peak_hours scenario_A_elasticity)"
    by (simp add: scenario_A_demand_def scenario_A_elasticity_def at_hour_def hour_of_def between_def)
  have h3: "\<not> between (hour_of (timestamp (rows scenario_A_demand ! 1))) (shoulder_hours scenario_A_elasticity)"
    by (simp add: scenario_A_demand_def scenario_A_elasticity_def at_hour_def hour_of_def between_def)
  have "validations (simulated res ! 1)
          = max (validations (rows scenario_A_demand ! 1) * (1 - total_elasticity scenario_A_elasticity)) 0"
    by (rule peak_only_rows_scaled[OF r h1 h2 h3])
  also have "\<dots> = 90"
    by (simp add: scenario_A_demand_def scenario_A_elasticity_def at_hour_def total_elasticity_def)
  finally show ?thesis
    using h1 h2 h3 unfolding r by simp
qed

text \<open>
  C8. The claim: when the baseline validations of the peak records sum to 0,
  \<^verbatim>\<open>peak_reduction_pct\<close> is 0. The code divides by that sum without the guard it has
  for the revenue on the next line: on a table with a single record at 12 o'clock (no peak
  record), \<^verbatim>\<open>peak_reduction_pct\<close> is not a number.
\<close>

theorem zero_peak_demand_pct_is_nan:
  "simulate_incentives \<lparr>columns = all_columns, rows = [at_hour 12 5]\<rparr> scenario_A_elasticity 2
     = Inr \<lparr>baseline = [with_hour (at_hour 12 5)],
            simulated = [(with_hour (at_hour 12 5))\<lparr>validations := 5\<rparr>],
            peak_reduction_pct = NaN, revenue_delta_pct = 0\<rparr>"
  by (simp add: sim_defs scenario_A_elasticity_def)







section \<open>The optimizer: the model it builds and the table it returns\<close>

lemmas model_defs = lp_model_def routes_of_def timestamps_of_def unique_def decision_vars_def
  capacity_constraints_def peak_constraints_def revenue_constraint_def service_constraints_def
  cap_value_def baseline_revenue_def fare_of_def Let_def row_at_def cap_at_def

lemmas feasible_defs = lp_feasible_def satisfied_def eval_expr_def

lemma feasibleD:
  assumes "lp_feasible eps p w"
  shows "c \<in> set (constraints p) \<Longrightarrow> satisfied eps w c"
    and "v \<in> set (lp_variables p) \<Longrightarrow> - eps \<le> w v"
  using assms by (auto simp: lp_feasible_def list_all_iff)

lemma constraints_lp_model:
  "constraints (lp_model d c f cfg)
     = capacity_constraints c (routes_of d) (timestamps_of d)
       @ peak_constraints (routes_of d) (timestamps_of d)
       @ [revenue_constraint d f cfg (routes_of d) (timestamps_of d)]
       @ service_constraints d cfg"
  by (simp add: lp_model_def Let_def)

lemma variables_lp_model:
  "lp_variables (lp_model d c f cfg) = decision_vars (routes_of d) (timestamps_of d) @ [PeakVar]"
  by (simp add: lp_model_def Let_def)

lemma set_unique: "set (unique xs) = set xs"
  by (simp add: unique_def)

lemma distinct_unique: "distinct (unique xs)"
  by (simp add: unique_def)

lemma set_routes_of: "set (routes_of d) = route_id ` set d"
  by (simp add: routes_of_def set_unique)

lemma distinct_routes_of: "distinct (routes_of d)"
  by (simp add: routes_of_def distinct_unique)

lemma set_timestamps_of: "set (timestamps_of d) = timestamp ` set d"
  by (simp add: timestamps_of_def set_unique)

text \<open>With the solver present, \<^verbatim>\<open>optimize_demand\<close> returns one output row per demand row.\<close>

lemma optimize_demand_Some:
  "optimize_demand (Some solve) d c f cfg =
     Inr (map (\<lambda>row.
       \<lparr>route_id = route_id row, stop_id = stop_id row, timestamp = timestamp row,
        validations = validations row,
        optimized_validations =
          var_value (solve (lp_model d c f cfg)) (Decision (route_id row) (timestamp row)),
        out_capacity = cap_value c (route_id row) (timestamp row),
        peak_load = var_value (solve (lp_model d c f cfg)) PeakVar,
        opt_revenue_delta_pct =
          (if baseline_revenue d f \<noteq> 0
           then (sum_list (map (\<lambda>row. var_value (solve (lp_model d c f cfg))
                                         (Decision (route_id row) (timestamp row))
                                       * fare_of f (route_id row)) d)
                 - baseline_revenue d f) / baseline_revenue d f * 100
           else 0)\<rparr>) d)"
  by (simp add: optimize_demand_def Let_def)

lemma optimize_demand_rows:
  assumes "optimize_demand (Some solve) d c f cfg = Inr out"
  shows "length out = length d"
    and "i < length d \<Longrightarrow> optimized_validations (out ! i)
           = var_value (solve (lp_model d c f cfg)) (Decision (route_id (d ! i)) (timestamp (d ! i)))"
    and "r \<in> set out \<Longrightarrow> peak_load r = var_value (solve (lp_model d c f cfg)) PeakVar"
    and "r \<in> set out \<Longrightarrow> timestamp r \<in> timestamp ` set d"
  using assms unfolding optimize_demand_Some by auto

lemma eval_expr_single: "eval_expr w [(v, 1)] = w v"
  by (simp add: eval_expr_def)

lemma eval_expr_peak:
  "eval_expr w (map (\<lambda>route. (Decision route t, 1)) rs @ [(PeakVar, - 1)])
     = sum_list (map (\<lambda>route. w (Decision route t)) rs) - w PeakVar"
  by (simp add: eval_expr_def o_def)


lemma timestamp_load_rows:
  assumes "optimize_demand (Some solve) d c f cfg = Inr out"
  shows "timestamp_load out t
           = sum_list (map (\<lambda>route. var_value (solve (lp_model d c f cfg)) (Decision route t))
               (map route_id (filter (\<lambda>r. timestamp r = t) d)))"
proof -
  have "map optimized_validations (filter (\<lambda>r. timestamp r = t) out)
          = map (\<lambda>row. var_value (solve (lp_model d c f cfg)) (Decision (route_id row) t))
              (filter (\<lambda>r. timestamp r = t) d)"
    using assms unfolding optimize_demand_Some by (auto simp: filter_map o_def)
  then show ?thesis
    by (simp add: timestamp_load_def o_def)
qed

lemma distinct_routes_at:
  "distinct (map (\<lambda>r. (route_id r, timestamp r)) d)
     \<Longrightarrow> distinct (map route_id (filter (\<lambda>r. timestamp r = t) d))"
  by (induction d) (auto simp: image_iff)

text \<open>
  A sum over some of the routes, each of them once, is bounded by the sum over all the
  routes when no term is below \<open>- eps\<close>.
\<close>

lemma partial_sum_le:
  fixes x :: "'a \<Rightarrow> real"
  assumes "distinct rs" and "distinct all" and "set rs \<subseteq> set all" and "rs \<noteq> []"
    and "0 \<le> eps" and "\<And>a. a \<in> set all \<Longrightarrow> - eps \<le> x a"
  shows "sum_list (map x rs) + eps \<le> sum_list (map x all) + eps * real (length all)"
proof -
  have fin: "finite (set all)" by simp
  have split: "sum x (set all) = sum x (set all - set rs) + sum x (set rs)"
    by (rule sum.subset_diff[OF assms(3) fin])
  have "real (card (set all - set rs)) * (- eps) \<le> sum x (set all - set rs)"
    by (rule sum_bounded_below) (use assms(6) in auto)
  moreover have "card (set all - set rs) = card (set all) - card (set rs)"
    by (rule card_Diff_subset) (use assms(3) in auto)
  moreover have "card (set rs) \<le> card (set all)"
    by (rule card_mono) (use assms(3) in auto)
  moreover have "0 < card (set rs)"
    using assms(4) by (simp add: card_gt_0_iff)
  ultimately have "real (card (set all) - card (set rs)) * (- eps) \<le> sum x (set all - set rs)"
    and c: "real (card (set all) - card (set rs)) \<le> real (card (set all)) - 1"
    by auto
  moreover have "(real (card (set all)) - 1) * (- eps) \<le> real (card (set all) - card (set rs)) * (- eps)"
    using c assms(5) by (intro mult_right_mono_neg) simp_all
  ultimately have "(real (card (set all)) - 1) * (- eps) \<le> sum x (set all - set rs)"
    by linarith
  then have "sum x (set rs) + eps \<le> sum x (set all) + eps * real (card (set all))"
    using split by (simp add: algebra_simps)
  then show ?thesis
    using assms(1,2) by (simp add: sum_list_distinct_conv_sum_set distinct_card)
qed

lemma scenario_C_model:
  "lp_model scenario_C_demand scenario_C_capacity scenario_C_fares scenario_C_config =
     \<lparr>lp_variables = [Decision ''R1'' 1672642800, Decision ''R1'' 1672646400,
                      Decision ''R1'' 1672650000, PeakVar],
      objective = [(PeakVar, 1)],
      constraints =
        [\<lparr>lhs = [(Decision ''R1'' 1672642800, 1)], sense = LE, rhs = 100\<rparr>,
         \<lparr>lhs = [(Decision ''R1'' 1672646400, 1)], sense = LE, rhs = 100\<rparr>,
         \<lparr>lhs = [(Decision ''R1'' 1672650000, 1)], sense = LE, rhs = 100\<rparr>,
         \<lparr>lhs = [(Decision ''R1'' 1672642800, 1), (PeakVar, - 1)], sense = LE, rhs = 0\<rparr>,
         \<lparr>lhs = [(Decision ''R1'' 1672646400, 1), (PeakVar, - 1)], sense = LE, rhs = 0\<rparr>,
         \<lparr>lhs = [(Decision ''R1'' 1672650000, 1), (PeakVar, - 1)], sense = LE, rhs = 0\<rparr>,
         \<lparr>lhs = [(Decision ''R1'' 1672642800, 2), (Decision ''R1'' 1672646400, 2),
                 (Decision ''R1'' 1672650000, 2)], sense = GE, rhs = 140\<rparr>,
         \<lparr>lhs = [(Decision ''R1'' 1672642800, 1)], sense = GE, rhs = 8\<rparr>,
         \<lparr>lhs = [(Decision ''R1'' 1672646400, 1)], sense = GE, rhs = 40\<rparr>,
         \<lparr>lhs = [(Decision ''R1'' 1672650000, 1)], sense = GE, rhs = 8\<rparr>]\<rparr>"
  by (simp add: model_defs scenario_C_demand_def scenario_C_capacity_def scenario_C_fares_def
      scenario_C_config_def)

lemma scenario_C_values_feasible:
  "lp_feasible 0 (lp_model scenario_C_demand scenario_C_capacity scenario_C_fares scenario_C_config)
     scenario_C_values"
  unfolding scenario_C_model by (simp add: feasible_defs scenario_C_values_def)

text \<open>
  Every optimal solution of the Scenario C problem has peak 40: the service floor of the
  middle row forces 40, and 15, 40, 15 with peak 40 is feasible.
\<close>

lemma scenario_C_optimal_peak:
  assumes "lp_optimal (lp_model scenario_C_demand scenario_C_capacity scenario_C_fares scenario_C_config) w"
  shows "w PeakVar = 40"
    and "140 \<le> 2 * (w (Decision ''R1'' 1672642800) + w (Decision ''R1'' 1672646400)
                      + w (Decision ''R1'' 1672650000))"
proof -
  let ?M = "lp_model scenario_C_demand scenario_C_capacity scenario_C_fares scenario_C_config"
  have f: "lp_feasible 0 ?M w"
    and opt: "\<And>u. lp_feasible 0 ?M u \<Longrightarrow> eval_expr w (objective ?M) \<le> eval_expr u (objective ?M)"
    using assms by (auto simp: lp_optimal_def)
  from opt[OF scenario_C_values_feasible] have le: "w PeakVar \<le> 40"
    unfolding scenario_C_model by (simp add: eval_expr_def scenario_C_values_def)
  from f have ge: "40 \<le> w PeakVar"
    unfolding scenario_C_model by (simp add: feasible_defs)
  from le ge show "w PeakVar = 40" by simp
  from f show "140 \<le> 2 * (w (Decision ''R1'' 1672642800) + w (Decision ''R1'' 1672646400)
                      + w (Decision ''R1'' 1672650000))"
    unfolding scenario_C_model by (simp add: feasible_defs)
qed

lemma scenario_C_values_optimal:
  "lp_optimal (lp_model scenario_C_demand scenario_C_capacity scenario_C_fares scenario_C_config)
     scenario_C_values"
  unfolding lp_optimal_def scenario_C_model
  by (auto simp: feasible_defs scenario_C_values_def)

lemma scenario_C_solved:
  "lp_solved 0 (lp_model scenario_C_demand scenario_C_capacity scenario_C_fares scenario_C_config)
     (scenario_C_solver (lp_model scenario_C_demand scenario_C_capacity scenario_C_fares scenario_C_config))"
  using scenario_C_values_feasible by (simp add: lp_solved_def scenario_C_solver_def)

section \<open>The optimizer: the claims\<close>

text \<open>
  C1. Whenever the solve succeeds (the solver reports \<^verbatim>\<open>Optimal\<close> and its values meet
  the constraints within the tolerance \<open>eps\<close>), every row of the demand table with
  baseline validations \<open>v\<close> has \<^verbatim>\<open>optimized_validations\<close> at least
  \<open>v * min_service_factor\<close>, within the tolerance.
\<close>

theorem service_floor_met:
  assumes out: "optimize_demand (Some solve) demand capacity fares config = Inr out"
    and solved: "lp_solved eps (lp_model demand capacity fares config)
                   (solve (lp_model demand capacity fares config))"
    and i: "i < length demand"
  shows "validations (demand ! i) * min_service_factor config - eps
           \<le> optimized_validations (out ! i)"
proof -
  let ?M = "lp_model demand capacity fares config"
  let ?w = "var_value (solve ?M)"
  let ?c = "\<lparr>lhs = [(Decision (route_id (demand ! i)) (timestamp (demand ! i)), 1)], sense = GE,
             rhs = validations (demand ! i) * min_service_factor config\<rparr>"
  have "?c \<in> set (service_constraints demand config)"
    using i by (auto simp: service_constraints_def image_iff intro!: bexI[of _ "demand ! i"])
  then have "?c \<in> set (constraints ?M)"
    by (simp add: constraints_lp_model)
  moreover have "lp_feasible eps ?M ?w"
    using solved by (simp add: lp_solved_def)
  ultimately have "satisfied eps ?w ?c"
    by (rule feasibleD(1)[rotated])
  then have "validations (demand ! i) * min_service_factor config - eps
               \<le> ?w (Decision (route_id (demand ! i)) (timestamp (demand ! i)))"
    by (simp add: satisfied_def eval_expr_single)
  then show ?thesis
    by (simp add: optimize_demand_rows(2)[OF out i])
qed

theorem service_floor_met_witness:
  "lp_solved 0 (lp_model scenario_C_demand scenario_C_capacity scenario_C_fares scenario_C_config)
     (scenario_C_solver (lp_model scenario_C_demand scenario_C_capacity scenario_C_fares scenario_C_config))
   \<and> 1 < length scenario_C_demand
   \<and> (case optimize_demand (Some scenario_C_solver) scenario_C_demand scenario_C_capacity
             scenario_C_fares scenario_C_config of
         Inr out \<Rightarrow> 50 * 0.8 - 0 \<le> optimized_validations (out ! 1)
       | Inl e \<Rightarrow> False)"
proof -
  obtain out where o: "optimize_demand (Some scenario_C_solver) scenario_C_demand
      scenario_C_capacity scenario_C_fares scenario_C_config = Inr out"
    by (simp add: optimize_demand_Some)
  have l: "1 < length scenario_C_demand"
    by (simp add: scenario_C_demand_def)
  have "validations (scenario_C_demand ! 1) * min_service_factor scenario_C_config - 0
          \<le> optimized_validations (out ! 1)"
    by (rule service_floor_met[OF o scenario_C_solved l])
  then show ?thesis
    using scenario_C_solved l unfolding o
    by (simp add: scenario_C_demand_def scenario_C_config_def row_at_def)
qed

text \<open>
  C2, as stated, fails where several rows share a key. With two rows of route R1 at one
  timestamp (two stops, 10 validations each) there is one decision variable; the solver's
  answer 8 for it and 8 for the peak is an optimal solution, both output rows carry 8, and
  their sum 16 exceeds the peak load 8.
\<close>

theorem shared_key_rows_exceed_peak_load:
  "lp_optimal (lp_model shared_key_demand [] Map.empty default_config) (\<lambda>v. 8)
   \<and> optimize_demand (Some shared_key_solver) shared_key_demand [] Map.empty default_config
      = Inr [\<lparr>route_id = ''R1'', stop_id = ''S1'', timestamp = 1672646400, validations = 10,
              optimized_validations = 8, out_capacity = 1000000, peak_load = 8,
              opt_revenue_delta_pct = 0\<rparr>,
             \<lparr>route_id = ''R1'', stop_id = ''S2'', timestamp = 1672646400, validations = 10,
              optimized_validations = 8, out_capacity = 1000000, peak_load = 8,
              opt_revenue_delta_pct = 0\<rparr>]
   \<and> timestamp_load
        [\<lparr>route_id = ''R1'', stop_id = ''S1'', timestamp = 1672646400, validations = 10,
          optimized_validations = 8, out_capacity = 1000000, peak_load = 8,
          opt_revenue_delta_pct = 0\<rparr>,
         \<lparr>route_id = ''R1'', stop_id = ''S2'', timestamp = 1672646400, validations = 10,
          optimized_validations = 8, out_capacity = 1000000, peak_load = 8,
          opt_revenue_delta_pct = 0\<rparr>] 1672646400 = 16"
proof -
  have m: "lp_model shared_key_demand [] Map.empty default_config =
     \<lparr>lp_variables = [Decision ''R1'' 1672646400, PeakVar],
      objective = [(PeakVar, 1)],
      constraints =
        [\<lparr>lhs = [(Decision ''R1'' 1672646400, 1)], sense = LE, rhs = 1000000\<rparr>,
         \<lparr>lhs = [(Decision ''R1'' 1672646400, 1), (PeakVar, - 1)], sense = LE, rhs = 0\<rparr>,
         \<lparr>lhs = [(Decision ''R1'' 1672646400, 0)], sense = GE, rhs = 0\<rparr>,
         \<lparr>lhs = [(Decision ''R1'' 1672646400, 1)], sense = GE, rhs = 8\<rparr>,
         \<lparr>lhs = [(Decision ''R1'' 1672646400, 1)], sense = GE, rhs = 8\<rparr>]\<rparr>"
    by (simp add: model_defs shared_key_demand_def default_config_def)
  have "lp_optimal (lp_model shared_key_demand [] Map.empty default_config) (\<lambda>v. 8)"
    unfolding lp_optimal_def m by (auto simp: feasible_defs)
  moreover have "optimize_demand (Some shared_key_solver) shared_key_demand [] Map.empty default_config
      = Inr [\<lparr>route_id = ''R1'', stop_id = ''S1'', timestamp = 1672646400, validations = 10,
              optimized_validations = 8, out_capacity = 1000000, peak_load = 8,
              opt_revenue_delta_pct = 0\<rparr>,
             \<lparr>route_id = ''R1'', stop_id = ''S2'', timestamp = 1672646400, validations = 10,
              optimized_validations = 8, out_capacity = 1000000, peak_load = 8,
              opt_revenue_delta_pct = 0\<rparr>]"
    by (simp add: optimize_demand_Some shared_key_solver_def shared_key_demand_def row_at_def
        cap_value_def baseline_revenue_def fare_of_def)
  ultimately show ?thesis
    by (simp add: timestamp_load_def)
qed

text \<open>
  C2, amended. Whenever the solve succeeds within a tolerance \<open>eps \<ge> 0\<close> and no two
  rows of the demand table share a (route, timestamp) key, the sum of
  \<^verbatim>\<open>optimized_validations\<close> over the output rows that carry the timestamp of an output
  row is at most \<^verbatim>\<open>peak_load\<close> plus \<open>eps\<close> times the number of distinct routes: at
  most \<^verbatim>\<open>peak_load\<close> when the solution is exact.
\<close>

theorem timestamp_load_bounded:
  assumes out: "optimize_demand (Some solve) demand capacity fares config = Inr out"
    and solved: "lp_solved eps (lp_model demand capacity fares config)
                   (solve (lp_model demand capacity fares config))"
    and eps: "0 \<le> eps"
    and keys: "distinct (map (\<lambda>r. (route_id r, timestamp r)) demand)"
    and row: "r \<in> set out"
  shows "timestamp_load out (timestamp r)
           \<le> peak_load r + eps * real (length (routes_of demand))"
proof -
  let ?M = "lp_model demand capacity fares config"
  let ?w = "var_value (solve ?M)"
  let ?t = "timestamp r"
  let ?x = "\<lambda>route. ?w (Decision route ?t)"
  let ?rs = "map route_id (filter (\<lambda>r. timestamp r = ?t) demand)"
  have feas: "lp_feasible eps ?M ?w"
    using solved by (simp add: lp_solved_def)
  have t: "?t \<in> set (timestamps_of demand)"
    using optimize_demand_rows(4)[OF out row] by (simp add: set_timestamps_of)
  have load: "timestamp_load out ?t = sum_list (map ?x ?rs)"
    by (rule timestamp_load_rows[OF out])
  have d: "distinct ?rs"
    by (rule distinct_routes_at[OF keys])
  have sub: "set ?rs \<subseteq> set (routes_of demand)"
    by (auto simp: set_routes_of)
  have ne: "?rs \<noteq> []"
    using t by (auto simp: set_timestamps_of filter_empty_conv)
  have bound: "- eps \<le> ?x a" if "a \<in> set (routes_of demand)" for a
  proof -
    have "Decision a ?t \<in> set (lp_variables ?M)"
      using that t by (auto simp: variables_lp_model decision_vars_def)
    then show ?thesis
      by (rule feasibleD(2)[OF feas])
  qed
  have "\<lparr>lhs = map (\<lambda>route. (Decision route ?t, 1)) (routes_of demand) @ [(PeakVar, - 1)],
         sense = LE, rhs = 0\<rparr> \<in> set (constraints ?M)"
    using t by (auto simp: constraints_lp_model peak_constraints_def)
  from feasibleD(1)[OF feas this]
  have peak: "sum_list (map ?x (routes_of demand)) - ?w PeakVar \<le> eps"
    by (simp add: satisfied_def eval_expr_peak)
  have "sum_list (map ?x ?rs) + eps
          \<le> sum_list (map ?x (routes_of demand)) + eps * real (length (routes_of demand))"
    by (rule partial_sum_le[OF d distinct_routes_of sub ne eps bound])
  with peak have "sum_list (map ?x ?rs) \<le> ?w PeakVar + eps * real (length (routes_of demand))"
    by linarith
  then show ?thesis
    by (simp add: load optimize_demand_rows(3)[OF out row])
qed

theorem timestamp_load_bounded_witness:
  "lp_solved 0 (lp_model scenario_C_demand scenario_C_capacity scenario_C_fares scenario_C_config)
     (scenario_C_solver (lp_model scenario_C_demand scenario_C_capacity scenario_C_fares scenario_C_config))
   \<and> distinct (map (\<lambda>r. (route_id r, timestamp r)) scenario_C_demand)
   \<and> (case optimize_demand (Some scenario_C_solver) scenario_C_demand scenario_C_capacity
             scenario_C_fares scenario_C_config of
         Inr out \<Rightarrow> timestamp_load out (timestamp (out ! 1)) \<le> peak_load (out ! 1)
       | Inl e \<Rightarrow> False)"
proof -
  obtain out where o: "optimize_demand (Some scenario_C_solver) scenario_C_demand
      scenario_C_capacity scenario_C_fares scenario_C_config = Inr out"
    by (simp add: optimize_demand_Some)
  have k: "distinct (map (\<lambda>r. (route_id r, timestamp r)) scenario_C_demand)"
    by (simp add: scenario_C_demand_def row_at_def)
  have "length out = length scenario_C_demand"
    by (rule optimize_demand_rows(1)[OF o])
  then have r: "out ! 1 \<in> set out"
    by (simp add: scenario_C_demand_def)
  have "timestamp_load out (timestamp (out ! 1))
          \<le> peak_load (out ! 1) + 0 * real (length (routes_of scenario_C_demand))"
    by (rule timestamp_load_bounded[OF o scenario_C_solved order_refl k r])
  then show ?thesis
    using scenario_C_solved k unfolding o by simp
qed





text \<open>
  C5, as stated, fails: on Scenario C the values 15, 40, 15 with peak 40 are an optimal
  solution of the linear program, and with them \<^verbatim>\<open>optimize_demand\<close> returns
  \<^verbatim>\<open>peak_load\<close> 40, not 50. The service floor of the row with 50 validations is
  \<open>0.8 * 50 = 40\<close>, and the revenue floor \<open>2 * (x1 + x2 + x3) \<ge> 140\<close> is met with no
  variable above 40.
\<close>

theorem scenario_C_peak_load_is_40:
  "lp_optimal (lp_model scenario_C_demand scenario_C_capacity scenario_C_fares scenario_C_config)
     scenario_C_values
   \<and> optimize_demand (Some scenario_C_solver) scenario_C_demand scenario_C_capacity
        scenario_C_fares scenario_C_config
      = Inr [\<lparr>route_id = ''R1'', stop_id = ''S1'', timestamp = 1672642800, validations = 10,
              optimized_validations = 15, out_capacity = 100, peak_load = 40,
              opt_revenue_delta_pct = 0\<rparr>,
             \<lparr>route_id = ''R1'', stop_id = ''S1'', timestamp = 1672646400, validations = 50,
              optimized_validations = 40, out_capacity = 100, peak_load = 40,
              opt_revenue_delta_pct = 0\<rparr>,
             \<lparr>route_id = ''R1'', stop_id = ''S1'', timestamp = 1672650000, validations = 10,
              optimized_validations = 15, out_capacity = 100, peak_load = 40,
              opt_revenue_delta_pct = 0\<rparr>]"
proof -
  have "optimize_demand (Some scenario_C_solver) scenario_C_demand scenario_C_capacity
        scenario_C_fares scenario_C_config
      = Inr [\<lparr>route_id = ''R1'', stop_id = ''S1'', timestamp = 1672642800, validations = 10,
              optimized_validations = 15, out_capacity = 100, peak_load = 40,
              opt_revenue_delta_pct = 0\<rparr>,
             \<lparr>route_id = ''R1'', stop_id = ''S1'', timestamp = 1672646400, validations = 50,
              optimized_validations = 40, out_capacity = 100, peak_load = 40,
              opt_revenue_delta_pct = 0\<rparr>,
             \<lparr>route_id = ''R1'', stop_id = ''S1'', timestamp = 1672650000, validations = 10,
              optimized_validations = 15, out_capacity = 100, peak_load = 40,
              opt_revenue_delta_pct = 0\<rparr>]"
    by (simp add: optimize_demand_Some scenario_C_solver_def scenario_C_values_def
        scenario_C_demand_def scenario_C_capacity_def scenario_C_fares_def row_at_def cap_at_def
        cap_value_def baseline_revenue_def fare_of_def)
  with scenario_C_values_optimal show ?thesis by simp
qed

text \<open>
  C5, amended. On Scenario C, whenever the values the solver returns are an optimal
  solution of the linear program, \<^verbatim>\<open>optimize_demand\<close> returns three rows with
  \<^verbatim>\<open>peak_load\<close> 40 and a \<^verbatim>\<open>revenue_delta_pct\<close> that is not negative.
\<close>

theorem scenario_C_optimum:
  assumes "lp_optimal (lp_model scenario_C_demand scenario_C_capacity scenario_C_fares scenario_C_config)
             (var_value (solve (lp_model scenario_C_demand scenario_C_capacity scenario_C_fares
                scenario_C_config)))"
  shows "\<exists>out. optimize_demand (Some solve) scenario_C_demand scenario_C_capacity
                  scenario_C_fares scenario_C_config = Inr out
           \<and> length out = 3
           \<and> list_all (\<lambda>r. peak_load r = 40 \<and> 0 \<le> opt_revenue_delta_pct r) out"
proof -
  define w where "w = var_value (solve (lp_model scenario_C_demand scenario_C_capacity
    scenario_C_fares scenario_C_config))"
  have p: "w PeakVar = 40"
    and r: "140 \<le> 2 * (w (Decision ''R1'' 1672642800) + w (Decision ''R1'' 1672646400)
                        + w (Decision ''R1'' 1672650000))"
    using scenario_C_optimal_peak[OF assms] by (simp_all add: w_def)
  have b: "baseline_revenue scenario_C_demand scenario_C_fares = 140"
    by (simp add: baseline_revenue_def scenario_C_demand_def scenario_C_fares_def row_at_def
        fare_of_def)
  have f: "fare_of scenario_C_fares ''R1'' = 2"
    by (simp add: fare_of_def scenario_C_fares_def)
  have rows: "map (\<lambda>row. (route_id row, timestamp row)) scenario_C_demand
                = [(''R1'', 1672642800), (''R1'', 1672646400), (''R1'', 1672650000)]"
    by (simp add: scenario_C_demand_def row_at_def)
  have rev: "sum_list (map (\<lambda>row. w (Decision (route_id row) (timestamp row))
                                    * fare_of scenario_C_fares (route_id row)) scenario_C_demand)
               = 2 * (w (Decision ''R1'' 1672642800) + w (Decision ''R1'' 1672646400)
                      + w (Decision ''R1'' 1672650000))"
    by (simp add: scenario_C_demand_def row_at_def f)
  have l: "length scenario_C_demand = 3"
    by (simp add: scenario_C_demand_def)
  show ?thesis
    unfolding optimize_demand_Some w_def[symmetric] b rev
    using p r l by (simp add: list_all_iff)
qed

theorem scenario_C_optimum_witness:
  "lp_optimal (lp_model scenario_C_demand scenario_C_capacity scenario_C_fares scenario_C_config)
     (var_value (scenario_C_solver (lp_model scenario_C_demand scenario_C_capacity
        scenario_C_fares scenario_C_config)))
   \<and> (\<exists>out. optimize_demand (Some scenario_C_solver) scenario_C_demand scenario_C_capacity
               scenario_C_fares scenario_C_config = Inr out
          \<and> length out = 3
          \<and> list_all (\<lambda>r. peak_load r = 40 \<and> 0 \<le> opt_revenue_delta_pct r) out)"
proof -
  have h: "lp_optimal (lp_model scenario_C_demand scenario_C_capacity scenario_C_fares scenario_C_config)
     (var_value (scenario_C_solver (lp_model scenario_C_demand scenario_C_capacity
        scenario_C_fares scenario_C_config)))"
    using scenario_C_values_optimal by (simp add: scenario_C_solver_def)
  from scenario_C_optimum[where solve = scenario_C_solver, OF h] h show ?thesis by simp
qed

end
